theory Spec2Isabelle
  imports Complex_Main "HOL-Library.Sublist"
begin

section \<open>Bounding-box format conversion (keras\_cv/bounding\_box/converters.py)\<close>

subsection \<open>Data model\<close>

text \<open>
  A box tensor has the shape \<open>[batch_size, num_boxes, *]\<close>: a batch of lists of box
  records, each record being the numbers on the last axis (four coordinates followed by
  any payload). Numbers are exact rationals. An image batch is read only through
  \<open>tf.shape(images)\<close>, so it is represented by its shape
  \<open>[batch, height, width, ...]\<close>; \<open>None\<close> is the absent argument.
  The \<open>dtype\<close> argument is represented by the elementwise value map of
  \<open>tf.cast(_, dtype)\<close>; a dtype that holds every value exactly is \<open>id\<close>.
\<close>

type_synonym box = "rat list"
type_synonym boxes = "box list list"
type_synonym images = "nat list"
type_synonym dtype = "rat \<Rightarrow> rat"

text \<open>
  The failures of the module: the internal \<open>RequiresImagesException\<close>, Python's
  \<open>ValueError\<close> with its message, \<open>KeyError\<close> of a dictionary subscript, and the
  framework's failure on an impossible \<open>tf.split\<close> or shape subscript.
\<close>

datatype error =
    RequiresImagesException
  | ValueError string
  | KeyError string
  | InvalidArgumentError

text \<open>Elementwise operations fail as a whole as soon as one record fails.\<close>

fun map_err :: "('a \<Rightarrow> error + 'b) \<Rightarrow> 'a list \<Rightarrow> error + 'b list" where
  "map_err f [] = Inr []"
| "map_err f (x # xs) =
     (case f x of
        Inl e \<Rightarrow> Inl e
      | Inr y \<Rightarrow> (case map_err f xs of Inl e \<Rightarrow> Inl e | Inr ys \<Rightarrow> Inr (y # ys)))"

text \<open>
  \<open>tf.split(boxes, [1, 1, 1, 1, -1], axis=-1)\<close> on one record: it needs four fields.
  A tensor is rectangular, so its records have one length and the split fails on all of
  them or on none.
\<close>

fun tf_split :: "box \<Rightarrow> error + (rat \<times> rat \<times> rat \<times> rat \<times> rat list)" where
  "tf_split (a # b # c # d # rest) = Inr (a, b, c, d, rest)"
| "tf_split _ = Inl InvalidArgumentError"

text \<open>
  The pattern shared by all converters: split the last axis, compute the five pieces,
  concatenate them again along the last axis.
\<close>

definition split_concat ::
  "(rat \<times> rat \<times> rat \<times> rat \<times> rat list \<Rightarrow> rat list) \<Rightarrow> boxes \<Rightarrow> error + boxes" where
  "split_concat g boxes =
     map_err (map_err (\<lambda>r. case tf_split r of Inl e \<Rightarrow> Inl e | Inr p \<Rightarrow> Inr (g p))) boxes"

text \<open>\<open>shape = tf.shape(images); height, width = shape[1], shape[2]\<close>.\<close>

fun image_size :: "images \<Rightarrow> error + (nat \<times> nat)" where
  "image_size (n # height # width # _) = Inr (height, width)"
| "image_size _ = Inl InvalidArgumentError"

definition tf_cast :: "boxes \<Rightarrow> dtype \<Rightarrow> boxes" where
  "tf_cast boxes dtype = map (map (map dtype)) boxes"

subsection \<open>The converters\<close>

text \<open>
  The arithmetic of the converters is that of a floating-point tensor, which the cast
  gives by default. On a tensor of an integer dtype the true divisions of the source fail
  in the framework (\<open>/ 2.0\<close> in the two centre converters with a \<open>TypeError\<close>,
  \<open>/ width\<close> and \<open>/ height\<close> with a dtype mismatch at the concatenation). These
  failures are not represented: wherever a statement below gives the result of a
  converter, it is about floating-point tensors.
\<close>

definition center_xywh_to_xyxy :: "boxes \<Rightarrow> images option \<Rightarrow> error + boxes" where
  "center_xywh_to_xyxy boxes images =
     split_concat (\<lambda>(x, y, width, height, rest).
       [x - width / 2, y - height / 2, x + width / 2, y + height / 2] @ rest) boxes"

definition xywh_to_xyxy :: "boxes \<Rightarrow> images option \<Rightarrow> error + boxes" where
  "xywh_to_xyxy boxes images =
     split_concat (\<lambda>(x, y, width, height, rest).
       [x, y, x + width, y + height] @ rest) boxes"

definition xyxy_no_op :: "boxes \<Rightarrow> images option \<Rightarrow> error + boxes" where
  "xyxy_no_op boxes images = Inr boxes"

definition xyxy_to_xywh :: "boxes \<Rightarrow> images option \<Rightarrow> error + boxes" where
  "xyxy_to_xywh boxes images =
     split_concat (\<lambda>(left, top, right, bottom, rest).
       [left, top, right - left, bottom - top] @ rest) boxes"

definition xyxy_to_center_xywh :: "boxes \<Rightarrow> images option \<Rightarrow> error + boxes" where
  "xyxy_to_center_xywh boxes images =
     split_concat (\<lambda>(left, top, right, bottom, rest).
       [(left + right) / 2, (top + bottom) / 2, right - left, bottom - top] @ rest) boxes"

text \<open>
  The two relative converters divide and multiply by the image size. Division by a zero
  width or height is not an error in the source (it gives an infinity or a NaN); here it
  is HOL's \<open>x / 0 = 0\<close>, so statements about values assume a positive size.
\<close>

definition rel_xyxy_to_xyxy :: "boxes \<Rightarrow> images option \<Rightarrow> error + boxes" where
  "rel_xyxy_to_xyxy boxes images =
     (case images of
        None \<Rightarrow> Inl RequiresImagesException
      | Some imgs \<Rightarrow>
          (case image_size imgs of
             Inl e \<Rightarrow> Inl e
           | Inr (h, w) \<Rightarrow>
               (let height = of_nat h; width = of_nat w
                in split_concat (\<lambda>(left, top, right, bottom, rest).
                     [left * width, top * height, right * width, bottom * height] @ rest)
                     boxes)))"

definition xyxy_to_rel_xyxy :: "boxes \<Rightarrow> images option \<Rightarrow> error + boxes" where
  "xyxy_to_rel_xyxy boxes images =
     (case images of
        None \<Rightarrow> Inl RequiresImagesException
      | Some imgs \<Rightarrow>
          (case image_size imgs of
             Inl e \<Rightarrow> Inl e
           | Inr (h, w) \<Rightarrow>
               (let height = of_nat h; width = of_nat w
                in split_concat (\<lambda>(left, top, right, bottom, rest).
                     [left / width, top / height, right / width, bottom / height] @ rest)
                     boxes)))"

text \<open>The two dispatch dictionaries, in the order of the source.\<close>

definition TO_XYXY_CONVERTERS ::
  "(string \<times> (boxes \<Rightarrow> images option \<Rightarrow> error + boxes)) list" where
  "TO_XYXY_CONVERTERS =
     [(''xywh'', xywh_to_xyxy),
      (''center_xywh'', center_xywh_to_xyxy),
      (''xyxy'', xyxy_no_op),
      (''rel_xyxy'', rel_xyxy_to_xyxy)]"

definition FROM_XYXY_CONVERTERS ::
  "(string \<times> (boxes \<Rightarrow> images option \<Rightarrow> error + boxes)) list" where
  "FROM_XYXY_CONVERTERS =
     [(''xywh'', xyxy_to_xywh),
      (''center_xywh'', xyxy_to_center_xywh),
      (''xyxy'', xyxy_no_op),
      (''rel_xyxy'', xyxy_to_rel_xyxy)]"

definition keys :: "(string \<times> 'v) list \<Rightarrow> string list" where
  "keys d = map fst d"

subsection \<open>Strings: lower-casing and the error messages\<close>

text \<open>
  \<open>str.lower()\<close> on the ASCII letters; the format identifiers are ASCII, and no
  character outside ASCII lower-cases to one of their letters.
\<close>

definition lower_char :: "char \<Rightarrow> char" where
  "lower_char c =
     (let n = (of_char c :: nat) in if 65 \<le> n \<and> n \<le> 90 then char_of (n + 32) else c)"

definition lower :: "string \<Rightarrow> string" where
  "lower s = map lower_char s"

text \<open>How an f-string prints \<open>d.keys()\<close>: \<open>dict_keys(['a', 'b'])\<close>.\<close>

definition quoted :: "string \<Rightarrow> string" where
  "quoted s = [CHR 0x27] @ s @ [CHR 0x27]"

fun comma_sep :: "string list \<Rightarrow> string" where
  "comma_sep [] = []"
| "comma_sep [s] = s"
| "comma_sep (s # ss) = s @ '', '' @ comma_sep ss"

definition dict_keys_repr :: "string list \<Rightarrow> string" where
  "dict_keys_repr ks = ''dict_keys(['' @ comma_sep (map quoted ks) @ ''])''"

definition unsupported_source_message :: "string \<Rightarrow> string" where
  "unsupported_source_message source =
     ''`convert_format()` received an unsupported format for the argument '' @
     ''`source`.  `source` should be one of '' @
     dict_keys_repr (keys TO_XYXY_CONVERTERS) @ ''. '' @
     ''Got source='' @ source"

definition unsupported_target_message :: "string \<Rightarrow> string" where
  "unsupported_target_message target =
     ''`convert_format()` received an unsupported format for the argument '' @
     ''`target`.  `target` should be one of '' @
     dict_keys_repr (keys FROM_XYXY_CONVERTERS) @ ''. '' @
     ''Got target='' @ target"

text \<open>
  The message of the missing-images failure. The source formats the builtin
  \<open>format\<close> where the two identifiers were meant, and \<open>images\<close> is \<open>None\<close> whenever
  \<open>RequiresImagesException\<close> was raised.
\<close>

definition requires_images_message :: string where
  "requires_images_message =
     ''convert_format() must receive `images` when transforming '' @
     ''between relative and absolute formats.'' @
     ''convert_format() received source=`<built-in function format>`, '' @
     ''target=`<built-in function format>, '' @
     ''but images=None''"

subsection \<open>convert\_format\<close>

text \<open>
  \<open>try: ... except RequiresImagesException: raise ValueError(...)\<close>: every other
  failure and every result passes through.
\<close>

definition except_RequiresImagesException :: "error + boxes \<Rightarrow> error + boxes" where
  "except_RequiresImagesException r =
     (case r of
        Inl RequiresImagesException \<Rightarrow> Inl (ValueError requires_images_message)
      | Inl e \<Rightarrow> Inl e
      | Inr result \<Rightarrow> Inr result)"

definition convert_format ::
  "boxes \<Rightarrow> string \<Rightarrow> string \<Rightarrow> images option \<Rightarrow> dtype \<Rightarrow> error + boxes" where
  "convert_format boxes source target images dtype =
     (let source = lower source; target = lower target
      in case map_of TO_XYXY_CONVERTERS source of
           None \<Rightarrow> Inl (ValueError (unsupported_source_message source))
         | Some to_xyxy_fn \<Rightarrow>
             (case map_of FROM_XYXY_CONVERTERS target of
                None \<Rightarrow> Inl (ValueError (unsupported_target_message target))
              | Some from_xyxy_fn \<Rightarrow>
                  (let boxes = tf_cast boxes dtype
                   in if source = target then Inr boxes
                      else except_RequiresImagesException
                             (case to_xyxy_fn boxes images of
                                Inl e \<Rightarrow> Inl e
                              | Inr in_xyxy \<Rightarrow> from_xyxy_fn in_xyxy images))))"

subsection \<open>Notions used by the statements\<close>

text \<open>The supported format identifiers: the keys of the dispatch dictionaries.\<close>

definition formats :: "string list" where
  "formats = keys TO_XYXY_CONVERTERS"

text \<open>A box tensor has at least four fields on its last axis.\<close>

definition box_tensor :: "boxes \<Rightarrow> bool" where
  "box_tensor boxes = list_all (list_all (\<lambda>r. 4 \<le> length r)) boxes"

text \<open>The payload: what follows the four coordinates of each record.\<close>

definition payload :: "boxes \<Rightarrow> rat list list list" where
  "payload boxes = map (map (drop 4)) boxes"

text \<open>
  The pivot as the specification words it, to be compared with \<open>convert_format\<close>:
  \<open>FROM_XYXY_CONVERTERS[target](TO_XYXY_CONVERTERS[source](boxes, images), images)\<close>,
  a subscript of a missing key being a \<open>KeyError\<close>.
\<close>

definition pivot_composition ::
  "string \<Rightarrow> string \<Rightarrow> boxes \<Rightarrow> images option \<Rightarrow> error + boxes" where
  "pivot_composition source target boxes images =
     (case map_of TO_XYXY_CONVERTERS source of
        None \<Rightarrow> Inl (KeyError source)
      | Some to_xyxy_fn \<Rightarrow>
          (case map_of FROM_XYXY_CONVERTERS target of
             None \<Rightarrow> Inl (KeyError target)
           | Some from_xyxy_fn \<Rightarrow>
               (case to_xyxy_fn boxes images of
                  Inl e \<Rightarrow> Inl e
                | Inr in_xyxy \<Rightarrow> from_xyxy_fn in_xyxy images)))"

text \<open>
  What a converter does to a record that has its four fields, as a total function
  (a shorter record is left alone; \<open>split_concat\<close> fails on it).
\<close>

fun on_fields :: "(rat \<times> rat \<times> rat \<times> rat \<times> rat list \<Rightarrow> rat list) \<Rightarrow> box \<Rightarrow> box" where
  "on_fields g (a # b # c # d # rest) = g (a, b, c, d, rest)"
| "on_fields g r = r"

section \<open>Auxiliary facts\<close>

subsection \<open>Failure propagation, the dictionaries and lower-casing\<close>

lemma map_err_if:
  "map_err (\<lambda>x. if P x then Inr (h x) else Inl E) xs =
     (if list_all P xs then Inr (map h xs) else Inl E)"
  by (induction xs) auto

lemma split_row:
  "(case tf_split r of Inl e \<Rightarrow> Inl e | Inr p \<Rightarrow> Inr (g p)) =
     (if 4 \<le> length r then Inr (on_fields g r) else Inl InvalidArgumentError)"
  by (induction r rule: tf_split.induct) auto

lemma split_concat_eq:
  "split_concat g boxes =
     (if box_tensor boxes then Inr (map (map (on_fields g)) boxes)
      else Inl InvalidArgumentError)"
  unfolding split_concat_def box_tensor_def split_row map_err_if ..

lemma lower_char_idem: "lower_char (lower_char c) = lower_char c"
  by (auto simp: lower_char_def Let_def)

lemma lower_idem: "lower (lower s) = lower s"
  by (simp add: lower_def lower_char_idem)

lemma formats_eq: "formats = [''xywh'', ''center_xywh'', ''xyxy'', ''rel_xyxy'']"
  by (simp add: formats_def keys_def TO_XYXY_CONVERTERS_def)

lemma keys_FROM: "keys FROM_XYXY_CONVERTERS = formats"
  by (simp add: formats_def keys_def TO_XYXY_CONVERTERS_def FROM_XYXY_CONVERTERS_def)

lemma lower_formats: "F \<in> set formats \<Longrightarrow> lower F = F"
  by (auto simp: formats_eq lower_def lower_char_def)

lemma TO_None: "map_of TO_XYXY_CONVERTERS s = None \<longleftrightarrow> s \<notin> set formats"
  by (simp add: formats_def keys_def map_of_eq_None_iff)

lemma FROM_None: "map_of FROM_XYXY_CONVERTERS s = None \<longleftrightarrow> s \<notin> set formats"
  by (simp add: keys_FROM [symmetric] keys_def map_of_eq_None_iff)

lemma TO_Some:
  "map_of TO_XYXY_CONVERTERS s = Some f \<longleftrightarrow>
     s = ''xywh'' \<and> f = xywh_to_xyxy \<or> s = ''center_xywh'' \<and> f = center_xywh_to_xyxy \<or>
     s = ''xyxy'' \<and> f = xyxy_no_op \<or> s = ''rel_xyxy'' \<and> f = rel_xyxy_to_xyxy"
  by (auto simp: TO_XYXY_CONVERTERS_def)

lemma FROM_Some:
  "map_of FROM_XYXY_CONVERTERS s = Some f \<longleftrightarrow>
     s = ''xywh'' \<and> f = xyxy_to_xywh \<or> s = ''center_xywh'' \<and> f = xyxy_to_center_xywh \<or>
     s = ''xyxy'' \<and> f = xyxy_no_op \<or> s = ''rel_xyxy'' \<and> f = xyxy_to_rel_xyxy"
  by (auto simp: FROM_XYXY_CONVERTERS_def)

lemma TO_defined: "s \<in> set formats \<Longrightarrow> \<exists>f. map_of TO_XYXY_CONVERTERS s = Some f"
  using TO_None [of s] by (cases "map_of TO_XYXY_CONVERTERS s") auto

lemma FROM_defined: "s \<in> set formats \<Longrightarrow> \<exists>f. map_of FROM_XYXY_CONVERTERS s = Some f"
  using FROM_None [of s] by (cases "map_of FROM_XYXY_CONVERTERS s") auto

subsection \<open>The branches of convert\_format\<close>

lemma convert_format_same:
  assumes "lower s \<in> set formats" and "lower t = lower s"
  shows "convert_format b s t images dtype = Inr (tf_cast b dtype)"
proof -
  obtain f where f: "map_of TO_XYXY_CONVERTERS (lower s) = Some f"
    using TO_defined [OF assms(1)] by blast
  obtain g where g: "map_of FROM_XYXY_CONVERTERS (lower s) = Some g"
    using FROM_defined [OF assms(1)] by blast
  show ?thesis
    by (simp add: convert_format_def Let_def assms(2) f g)
qed

lemma convert_format_pivot:
  assumes "map_of TO_XYXY_CONVERTERS (lower s) = Some f"
    and "map_of FROM_XYXY_CONVERTERS (lower t) = Some g"
    and "lower s \<noteq> lower t"
  shows "convert_format b s t images dtype =
           except_RequiresImagesException
             (case f (tf_cast b dtype) images of Inl e \<Rightarrow> Inl e | Inr x \<Rightarrow> g x images)"
  using assms by (simp add: convert_format_def Let_def)

lemma convert_format_bad_source:
  "lower s \<notin> set formats \<Longrightarrow>
     convert_format b s t images dtype = Inl (ValueError (unsupported_source_message (lower s)))"
  using TO_None [of "lower s"] by (simp add: convert_format_def Let_def)

lemma convert_format_bad_target:
  assumes "lower s \<in> set formats" and "lower t \<notin> set formats"
  shows "convert_format b s t images dtype =
           Inl (ValueError (unsupported_target_message (lower t)))"
proof -
  obtain f where f: "map_of TO_XYXY_CONVERTERS (lower s) = Some f"
    using TO_defined [OF assms(1)] by blast
  show ?thesis
    using FROM_None [of "lower t"] assms(2) by (simp add: convert_format_def Let_def f)
qed

subsection \<open>The error messages name the formats\<close>

lemma sublist_inside: "sublist xs ys \<Longrightarrow> sublist xs (ps @ ys @ ss)"
  by (meson sublist_appendI sublist_order.order.trans)

lemma sublist_comma_sep: "f \<in> set ks \<Longrightarrow> sublist f (comma_sep ks)"
proof (induction ks rule: comma_sep.induct)
  case 1
  then show ?case by simp
next
  case (2 s)
  then show ?case by simp
next
  case (3 s v va)
  show ?case
  proof (cases "f = s")
    case True
    then show ?thesis by simp
  next
    case False
    with 3 have "sublist f (comma_sep (v # va))" by simp
    then have "sublist f ((s @ '', '') @ comma_sep (v # va) @ [])"
      by (rule sublist_inside)
    then show ?thesis by simp
  qed
qed

lemma dict_keys_repr_mentions: "f \<in> set ks \<Longrightarrow> sublist (quoted f) (dict_keys_repr ks)"
  unfolding dict_keys_repr_def
  by (rule sublist_inside, rule sublist_comma_sep) simp

lemma source_message_mentions:
  "f \<in> set formats \<Longrightarrow> sublist (quoted f) (unsupported_source_message x)"
  unfolding unsupported_source_message_def formats_def [symmetric]
  by (metis dict_keys_repr_mentions sublist_inside append.assoc)

lemma target_message_mentions:
  "f \<in> set formats \<Longrightarrow> sublist (quoted f) (unsupported_target_message x)"
  unfolding unsupported_target_message_def keys_FROM
  by (metis dict_keys_repr_mentions sublist_inside append.assoc)

lemma lower_examples:
  "lower ''Corners'' = ''corners''" "lower ''xyWH'' = ''xywh''" "lower ''XYXY'' = ''xyxy''"
  "lower ''Rel_XYXY'' = ''rel_xyxy''" "lower ''center_xyWH'' = ''center_xywh''"
  by code_simp+

lemmas converter_defs =
  center_xywh_to_xyxy_def xywh_to_xyxy_def xyxy_no_op_def xyxy_to_xywh_def
  xyxy_to_center_xywh_def rel_xyxy_to_xyxy_def xyxy_to_rel_xyxy_def

subsection \<open>Converters on box tensors\<close>

lemma record_cases: "4 \<le> length (r :: box) \<Longrightarrow> \<exists>a b c d rest. r = a # b # c # d # rest"
  by (cases r rule: tf_split.cases) auto

lemma box_tensor_map:
  assumes "\<And>r. 4 \<le> length r \<Longrightarrow> 4 \<le> length (k r)" and "box_tensor x"
  shows "box_tensor (map (map k) x)"
  using assms by (simp add: box_tensor_def list_all_iff)

lemma map_map_ident:
  assumes "\<And>r. 4 \<le> length r \<Longrightarrow> k r = r" and "box_tensor x"
  shows "map (map k) x = x"
proof -
  have "map k rs = rs" if "rs \<in> set x" for rs
    using that assms by (simp add: box_tensor_def list_all_iff map_idI)
  then show ?thesis by (simp add: map_idI)
qed

lemma box_tensor_cast: "box_tensor (tf_cast b dtype) = box_tensor b"
  by (simp add: box_tensor_def tf_cast_def list_all_iff)

lemma split_concat_inverse:
  assumes inv: "\<And>a b c d rest.
      on_fields G2 (G1 (a, b, c, d, rest)) = a # b # c # d # rest \<and>
      length (G1 (a, b, c, d, rest)) = 4 + length rest"
    and x: "box_tensor x"
  shows "\<exists>y. split_concat G1 x = Inr y \<and> box_tensor y \<and> split_concat G2 y = Inr x"
proof -
  have len: "4 \<le> length (on_fields G1 r)" if "4 \<le> length r" for r
  proof -
    from that obtain a b c d rest where r: "r = a # b # c # d # rest"
      using record_cases by blast
    from inv [of a b c d rest] show ?thesis by (simp add: r)
  qed
  have round: "on_fields G2 (on_fields G1 r) = r" if "4 \<le> length r" for r
  proof -
    from that obtain a b c d rest where r: "r = a # b # c # d # rest"
      using record_cases by blast
    from inv [of a b c d rest] show ?thesis by (simp add: r)
  qed
  let ?y = "map (map (on_fields G1)) x"
  have y: "box_tensor ?y" using len x by (rule box_tensor_map)
  have "map (map (on_fields G2)) ?y = map (map (\<lambda>r. on_fields G2 (on_fields G1 r))) x"
    by (simp add: comp_def)
  also have "\<dots> = x" using round x by (rule map_map_ident)
  finally have "split_concat G2 ?y = Inr x" using y by (simp add: split_concat_eq)
  with x y show ?thesis by (simp add: split_concat_eq)
qed

lemma to_from_inverse:
  assumes f: "map_of TO_XYXY_CONVERTERS F = Some f"
    and g: "map_of FROM_XYXY_CONVERTERS F = Some g"
    and x: "box_tensor x"
    and size: "image_size imgs = Inr (h, w)" "0 < h" "0 < w"
  shows "\<exists>y. f x (Some imgs) = Inr y \<and> box_tensor y \<and> g y (Some imgs) = Inr x"
proof -
  consider
      "f = xywh_to_xyxy" "g = xyxy_to_xywh"
    | "f = center_xywh_to_xyxy" "g = xyxy_to_center_xywh"
    | "f = xyxy_no_op" "g = xyxy_no_op"
    | "f = rel_xyxy_to_xyxy" "g = xyxy_to_rel_xyxy"
    using f g unfolding TO_Some FROM_Some by auto
  then show ?thesis
  proof cases
    case 1
    show ?thesis unfolding 1 xywh_to_xyxy_def xyxy_to_xywh_def
      by (rule split_concat_inverse [OF _ x]) simp
  next
    case 2
    show ?thesis unfolding 2 center_xywh_to_xyxy_def xyxy_to_center_xywh_def
      by (rule split_concat_inverse [OF _ x]) (simp add: field_simps)
  next
    case 3
    show ?thesis unfolding 3 xyxy_no_op_def using x by simp
  next
    case 4
    show ?thesis unfolding 4 rel_xyxy_to_xyxy_def xyxy_to_rel_xyxy_def
      using size by (simp add: Let_def) (rule split_concat_inverse [OF _ x], simp)
  qed
qed

lemma from_to_inverse:
  assumes f: "map_of TO_XYXY_CONVERTERS F = Some f"
    and g: "map_of FROM_XYXY_CONVERTERS F = Some g"
    and x: "box_tensor x"
    and size: "image_size imgs = Inr (h, w)" "0 < h" "0 < w"
  shows "\<exists>y. g x (Some imgs) = Inr y \<and> box_tensor y \<and> f y (Some imgs) = Inr x"
proof -
  consider
      "f = xywh_to_xyxy" "g = xyxy_to_xywh"
    | "f = center_xywh_to_xyxy" "g = xyxy_to_center_xywh"
    | "f = xyxy_no_op" "g = xyxy_no_op"
    | "f = rel_xyxy_to_xyxy" "g = xyxy_to_rel_xyxy"
    using f g unfolding TO_Some FROM_Some by auto
  then show ?thesis
  proof cases
    case 1
    show ?thesis unfolding 1 xywh_to_xyxy_def xyxy_to_xywh_def
      by (rule split_concat_inverse [OF _ x]) simp
  next
    case 2
    show ?thesis unfolding 2 center_xywh_to_xyxy_def xyxy_to_center_xywh_def
      by (rule split_concat_inverse [OF _ x]) (simp add: field_simps)
  next
    case 3
    show ?thesis unfolding 3 xyxy_no_op_def using x by simp
  next
    case 4
    show ?thesis unfolding 4 rel_xyxy_to_xyxy_def xyxy_to_rel_xyxy_def
      using size by (simp add: Let_def) (rule split_concat_inverse [OF _ x], simp)
  qed
qed

lemma tf_cast_id: "tf_cast b id = b"
  by (simp add: tf_cast_def)

lemma except_Inr: "except_RequiresImagesException (Inr y) = Inr y"
  by (simp add: except_RequiresImagesException_def)

lemma except_Inr_iff: "except_RequiresImagesException r = Inr y \<longleftrightarrow> r = Inr y"
  by (auto simp: except_RequiresImagesException_def split: sum.splits error.splits)

lemma except_other:
  "r \<noteq> Inl RequiresImagesException \<Longrightarrow> except_RequiresImagesException r = r"
  by (auto simp: except_RequiresImagesException_def split: sum.splits error.splits)

lemma except_RequiresImages:
  "except_RequiresImagesException (Inl RequiresImagesException) =
     Inl (ValueError requires_images_message)"
  by (simp add: except_RequiresImagesException_def)

lemma converter_with_images:
  assumes "map_of TO_XYXY_CONVERTERS F = Some f \<or> map_of FROM_XYXY_CONVERTERS F = Some f"
  shows "f x (Some imgs) \<noteq> Inl RequiresImagesException"
proof -
  consider "f = xywh_to_xyxy" | "f = center_xywh_to_xyxy" | "f = xyxy_no_op"
    | "f = rel_xyxy_to_xyxy" | "f = xyxy_to_xywh" | "f = xyxy_to_center_xywh"
    | "f = xyxy_to_rel_xyxy"
    using assms unfolding TO_Some FROM_Some by auto
  then show ?thesis
  proof cases
    case 4
    show ?thesis unfolding 4 rel_xyxy_to_xyxy_def
      by (cases imgs rule: image_size.cases) (simp_all add: Let_def split_concat_eq)
  next
    case 7
    show ?thesis unfolding 7 xyxy_to_rel_xyxy_def
      by (cases imgs rule: image_size.cases) (simp_all add: Let_def split_concat_eq)
  qed (simp_all add: converter_defs split_concat_eq)
qed

lemma absolute_to_xyxy_succeeds:
  assumes "map_of TO_XYXY_CONVERTERS F = Some f" and "F \<noteq> ''rel_xyxy''" and "box_tensor x"
  shows "\<exists>y. f x images = Inr y"
  using assms unfolding TO_Some by (auto simp: converter_defs split_concat_eq)

lemma messages_distinct:
  "requires_images_message \<noteq> unsupported_source_message x"
  "requires_images_message \<noteq> unsupported_target_message y"
  by (simp_all add: requires_images_message_def unsupported_source_message_def
      unsupported_target_message_def)

subsection \<open>Converters keep the payload and the shape\<close>

lemma on_fields_payload:
  assumes "\<And>a b c d rest.
      drop 4 (G (a, b, c, d, rest)) = rest \<and> length (G (a, b, c, d, rest)) = 4 + length rest"
  shows "drop 4 (on_fields G r) = drop 4 r \<and> length (on_fields G r) = length r"
  using assms by (cases r rule: tf_split.cases) simp_all

lemma split_concat_payload:
  assumes G: "\<And>a b c d rest.
      drop 4 (G (a, b, c, d, rest)) = rest \<and> length (G (a, b, c, d, rest)) = 4 + length rest"
    and y: "split_concat G x = Inr y"
  shows "payload y = payload x \<and> map (map length) y = map (map length) x"
proof -
  from y have "y = map (map (on_fields G)) x"
    by (simp add: split_concat_eq split: if_splits)
  then show ?thesis
    by (simp add: payload_def comp_def on_fields_payload [of G, OF G])
qed

lemma xywh_to_xyxy_payload:
  assumes "xywh_to_xyxy x images = Inr y"
  shows "payload y = payload x \<and> map (map length) y = map (map length) x"
  by (rule split_concat_payload [OF _ assms [unfolded xywh_to_xyxy_def]]) simp

lemma center_xywh_to_xyxy_payload:
  assumes "center_xywh_to_xyxy x images = Inr y"
  shows "payload y = payload x \<and> map (map length) y = map (map length) x"
  by (rule split_concat_payload [OF _ assms [unfolded center_xywh_to_xyxy_def]]) simp

lemma xyxy_to_xywh_payload:
  assumes "xyxy_to_xywh x images = Inr y"
  shows "payload y = payload x \<and> map (map length) y = map (map length) x"
  by (rule split_concat_payload [OF _ assms [unfolded xyxy_to_xywh_def]]) simp

lemma xyxy_to_center_xywh_payload:
  assumes "xyxy_to_center_xywh x images = Inr y"
  shows "payload y = payload x \<and> map (map length) y = map (map length) x"
  by (rule split_concat_payload [OF _ assms [unfolded xyxy_to_center_xywh_def]]) simp

lemma rel_xyxy_to_xyxy_payload:
  assumes "rel_xyxy_to_xyxy x images = Inr y"
  shows "payload y = payload x \<and> map (map length) y = map (map length) x"
proof -
  from assms obtain h w :: nat where
    "split_concat (\<lambda>(left, top, right, bottom, rest).
       [left * of_nat w, top * of_nat h, right * of_nat w, bottom * of_nat h] @ rest) x = Inr y"
    by (auto simp: rel_xyxy_to_xyxy_def Let_def split: option.splits sum.splits)
  then show ?thesis by (rule split_concat_payload [rotated]) simp
qed

lemma xyxy_to_rel_xyxy_payload:
  assumes "xyxy_to_rel_xyxy x images = Inr y"
  shows "payload y = payload x \<and> map (map length) y = map (map length) x"
proof -
  from assms obtain h w :: nat where
    "split_concat (\<lambda>(left, top, right, bottom, rest).
       [left / of_nat w, top / of_nat h, right / of_nat w, bottom / of_nat h] @ rest) x = Inr y"
    by (auto simp: xyxy_to_rel_xyxy_def Let_def split: option.splits sum.splits)
  then show ?thesis by (rule split_concat_payload [rotated]) simp
qed

lemma converter_payload:
  assumes f: "map_of TO_XYXY_CONVERTERS F = Some f \<or> map_of FROM_XYXY_CONVERTERS F = Some f"
    and y: "f x images = Inr y"
  shows "payload y = payload x \<and> map (map length) y = map (map length) x"
proof -
  consider "f = xywh_to_xyxy" | "f = center_xywh_to_xyxy" | "f = xyxy_no_op"
    | "f = rel_xyxy_to_xyxy" | "f = xyxy_to_xywh" | "f = xyxy_to_center_xywh"
    | "f = xyxy_to_rel_xyxy"
    using f unfolding TO_Some FROM_Some by auto
  then show ?thesis
  proof cases
    case 1
    with y show ?thesis by (simp add: xywh_to_xyxy_payload)
  next
    case 2
    with y show ?thesis by (simp add: center_xywh_to_xyxy_payload)
  next
    case 3
    with y show ?thesis by (simp add: xyxy_no_op_def)
  next
    case 4
    with y show ?thesis by (simp add: rel_xyxy_to_xyxy_payload)
  next
    case 5
    with y show ?thesis by (simp add: xyxy_to_xywh_payload)
  next
    case 6
    with y show ?thesis by (simp add: xyxy_to_center_xywh_payload)
  next
    case 7
    with y show ?thesis by (simp add: xyxy_to_rel_xyxy_payload)
  qed
qed

section \<open>Properties of the format converter\<close>

subsection \<open>Identity and the source-equals-target shortcut\<close>

text \<open>
  C5. Converting a supported format to itself is a no-op that still applies the
  requested cast: for every box tensor, every supported format \<open>F\<close> (in any
  capitalisation), any images argument and any dtype, the result is the cast input.
\<close>

theorem convert_format_identity:
  assumes "lower F \<in> set formats"
  shows "convert_format b F F images dtype = Inr (tf_cast b dtype)"
  using assms by (simp add: convert_format_same)

theorem convert_format_identity_witness:
  "lower ''xyWH'' \<in> set formats \<and>
   convert_format [[[10, 10, 100, 100, 7]]] ''xyWH'' ''xyWH'' (Some [1, 1000, 1000, 3])
       (\<lambda>x. x + 1) =
     Inr [[[11, 11, 101, 101, 8]]]"
proof -
  have h: "lower ''xyWH'' \<in> set formats"
    by (simp add: formats_eq lower_examples)
  show ?thesis
    using h convert_format_identity
      [OF h, of "[[[10, 10, 100, 100, 7]]]" "Some [1, 1000, 1000, 3]" "\<lambda>x. x + 1"]
    by (simp add: tf_cast_def)
qed

text \<open>
  C10. When source equals target, the relative format included, \<open>convert_format\<close>
  without images succeeds and returns the cast boxes: the shortcut returns before a
  converter is called, although both relative converters raise
  \<open>RequiresImagesException\<close> on the same arguments.
\<close>

theorem convert_format_same_format_without_images:
  assumes "lower F \<in> set formats"
  shows "convert_format b F F None dtype = Inr (tf_cast b dtype) \<and>
         rel_xyxy_to_xyxy (tf_cast b dtype) None = Inl RequiresImagesException \<and>
         xyxy_to_rel_xyxy (tf_cast b dtype) None = Inl RequiresImagesException"
  using assms by (simp add: convert_format_same rel_xyxy_to_xyxy_def xyxy_to_rel_xyxy_def)

theorem convert_format_same_format_without_images_witness:
  "lower ''rel_xyxy'' \<in> set formats \<and>
   convert_format [[[1 / 100, 1 / 100, 11 / 100, 11 / 100]]] ''rel_xyxy'' ''rel_xyxy'' None id =
     Inr [[[1 / 100, 1 / 100, 11 / 100, 11 / 100]]]"
proof -
  have h: "lower ''rel_xyxy'' \<in> set formats"
    by (simp add: formats_eq lower_formats)
  show ?thesis
    using h convert_format_same_format_without_images
      [OF h, of "[[[1 / 100, 1 / 100, 11 / 100, 11 / 100]]]" id]
    by (simp add: tf_cast_def)
qed

subsection \<open>Format identifiers\<close>

text \<open>
  C6. An identifier that, lower-cased, is not one of the supported formats, passed as
  source or as target, makes \<open>convert_format\<close> fail at once, whatever the boxes, the
  images and the dtype are: with a \<open>ValueError\<close> whose message is the one for the
  source when the source is at fault and the one for the target otherwise, and both
  messages contain every supported identifier, quoted.
\<close>

theorem convert_format_invalid_format:
  assumes "lower source \<notin> set formats \<or> lower target \<notin> set formats"
  shows "convert_format b source target images dtype =
           Inl (ValueError
                 (if lower source \<notin> set formats
                  then unsupported_source_message (lower source)
                  else unsupported_target_message (lower target))) \<and>
         list_all (\<lambda>f. sublist (quoted f) (unsupported_source_message (lower source)))
           formats \<and>
         list_all (\<lambda>f. sublist (quoted f) (unsupported_target_message (lower target)))
           formats"
proof (intro conjI)
  show "convert_format b source target images dtype =
           Inl (ValueError
                 (if lower source \<notin> set formats
                  then unsupported_source_message (lower source)
                  else unsupported_target_message (lower target)))"
  proof (cases "lower source \<in> set formats")
    case True
    with assms have "lower target \<notin> set formats" by simp
    with True show ?thesis by (simp add: convert_format_bad_target)
  next
    case False
    then show ?thesis by (simp add: convert_format_bad_source)
  qed
  show "list_all (\<lambda>f. sublist (quoted f) (unsupported_source_message (lower source))) formats"
    by (simp add: list_all_iff source_message_mentions)
  show "list_all (\<lambda>f. sublist (quoted f) (unsupported_target_message (lower target))) formats"
    by (simp add: list_all_iff target_message_mentions)
qed

theorem convert_format_invalid_format_witness:
  "lower ''Corners'' \<notin> set formats \<and>
   convert_format [[[10, 10, 110, 110]]] ''Corners'' ''xyxy'' None id =
     Inl (ValueError (unsupported_source_message ''corners'')) \<and>
   list_all (\<lambda>f. sublist (quoted f) (unsupported_source_message ''corners'')) formats"
proof -
  have h: "lower ''Corners'' \<notin> set formats \<or> lower ''xyxy'' \<notin> set formats"
    by (simp add: lower_examples formats_eq)
  show ?thesis
    using h convert_format_invalid_format [OF h, of "[[[10, 10, 110, 110]]]" None id]
    by (simp add: lower_examples formats_eq)
qed

text \<open>
  C9. Format identifiers are case-insensitive: a call returns the same result, or the
  same failure, as the call with both identifiers lower-cased; the capitalised
  spellings of the documentation lower-case to the dictionary keys.
\<close>

theorem convert_format_case_insensitive:
  "convert_format b source target images dtype =
     convert_format b (lower source) (lower target) images dtype \<and>
   lower ''xyWH'' = ''xywh'' \<and> lower ''XYXY'' = ''xyxy'' \<and>
   lower ''Rel_XYXY'' = ''rel_xyxy'' \<and> lower ''center_xyWH'' = ''center_xywh''"
  by (simp add: convert_format_def lower_idem lower_examples)

subsection \<open>The concrete scenarios\<close>

text \<open>
  C7. The corner box \<open>[10, 10, 110, 110]\<close> with images of height and width 1000
  converts from \<open>xyxy\<close> to \<open>rel_xyxy\<close> as \<open>[0.01, 0.01, 0.11, 0.11]\<close>, and that
  converts back to \<open>[10, 10, 110, 110]\<close> with the same images.
\<close>

theorem convert_format_relative_scenario:
  "convert_format [[[10, 10, 110, 110]]] ''xyxy'' ''rel_xyxy'' (Some [2, 1000, 1000, 3]) id =
     Inr [[[0.01, 0.01, 0.11, 0.11]]] \<and>
   convert_format [[[0.01, 0.01, 0.11, 0.11]]] ''rel_xyxy'' ''xyxy'' (Some [2, 1000, 1000, 3]) id =
     Inr [[[10, 10, 110, 110]]]"
  by (simp add: convert_format_pivot [where f = xyxy_no_op and g = xyxy_to_rel_xyxy]
      convert_format_pivot [where f = rel_xyxy_to_xyxy and g = xyxy_no_op]
      lower_formats formats_eq TO_Some FROM_Some tf_cast_def converter_defs split_concat_eq
      box_tensor_def except_RequiresImagesException_def)

text \<open>
  C8. The centre-format box \<open>[60, 60, 100, 100]\<close> converts from \<open>center_xywh\<close> to
  \<open>xywh\<close> as \<open>[10, 10, 100, 100]\<close>, with or without images.
\<close>

theorem convert_format_center_scenario:
  "convert_format [[[60, 60, 100, 100]]] ''center_xywh'' ''xywh'' images id =
     Inr [[[10, 10, 100, 100]]]"
  by (simp add: convert_format_pivot [where f = center_xywh_to_xyxy and g = xyxy_to_xywh]
      lower_formats formats_eq TO_Some FROM_Some tf_cast_def converter_defs split_concat_eq
      box_tensor_def except_RequiresImagesException_def)

subsection \<open>Round trip\<close>

text \<open>
  C1. For every ordered pair \<open>(A, B)\<close> of the four supported formats, every box tensor
  (at least four fields on the last axis) and every image batch with a positive height
  and width given to both calls, converting from \<open>A\<close> to \<open>B\<close> and back from \<open>B\<close> to
  \<open>A\<close> succeeds and gives the original tensor back, coordinates and payload, in exact
  arithmetic (the cast is the identity).
\<close>

theorem convert_format_round_trip:
  assumes A: "A \<in> set formats" and B: "B \<in> set formats"
    and b: "box_tensor b"
    and size: "image_size imgs = Inr (h, w)" "0 < h" "0 < w"
  shows "(case convert_format b A B (Some imgs) id of
            Inl e \<Rightarrow> Inl e
          | Inr y \<Rightarrow> convert_format y B A (Some imgs) id) = Inr b"
proof (cases "A = B")
  case True
  have "lower B \<in> set formats" using B by (simp add: lower_formats)
  then have "convert_format c B B (Some imgs) id = Inr c" for c
    by (simp add: convert_format_same tf_cast_id)
  with True show ?thesis by simp
next
  case False
  obtain fA gA fB gB where
    fA: "map_of TO_XYXY_CONVERTERS A = Some fA" and gA: "map_of FROM_XYXY_CONVERTERS A = Some gA" and
    fB: "map_of TO_XYXY_CONVERTERS B = Some fB" and gB: "map_of FROM_XYXY_CONVERTERS B = Some gB"
    using TO_defined [OF A] FROM_defined [OF A] TO_defined [OF B] FROM_defined [OF B] by blast
  have low: "lower A = A" "lower B = B"
    using A B by (simp_all add: lower_formats)
  obtain x where x: "fA b (Some imgs) = Inr x" "box_tensor x" "gA x (Some imgs) = Inr b"
    using to_from_inverse [OF fA gA b size] by blast
  obtain y where y: "gB x (Some imgs) = Inr y" "box_tensor y" "fB y (Some imgs) = Inr x"
    using from_to_inverse [OF fB gB x(2) size] by blast
  have there: "convert_format b A B (Some imgs) id = Inr y"
    using False by (simp add: convert_format_pivot [where f = fA and g = gB] low fA gB
        tf_cast_id x(1) y(1) except_Inr)
  have back_again: "convert_format y B A (Some imgs) id = Inr b"
    using False by (simp add: convert_format_pivot [where f = fB and g = gA] low fB gA
        tf_cast_id y(3) x(3) except_Inr)
  show ?thesis by (simp add: there back_again)
qed

theorem convert_format_round_trip_witness:
  "''center_xywh'' \<in> set formats \<and> ''rel_xyxy'' \<in> set formats \<and>
   box_tensor [[[60, 60, 100, 100, 7]]] \<and>
   image_size [2, 1000, 500, 3] = Inr (1000, 500) \<and>
   convert_format [[[60, 60, 100, 100, 7]]] ''center_xywh'' ''rel_xyxy''
     (Some [2, 1000, 500, 3]) id = Inr [[[1 / 50, 1 / 100, 11 / 50, 11 / 100, 7]]] \<and>
   (case convert_format [[[60, 60, 100, 100, 7]]] ''center_xywh'' ''rel_xyxy''
           (Some [2, 1000, 500, 3]) id of
      Inl e \<Rightarrow> Inl e
    | Inr y \<Rightarrow> convert_format y ''rel_xyxy'' ''center_xywh'' (Some [2, 1000, 500, 3]) id) =
     Inr [[[60, 60, 100, 100, 7]]]"
proof -
  have A: "''center_xywh'' \<in> set formats" and B: "''rel_xyxy'' \<in> set formats"
    by (simp_all add: formats_eq)
  have b: "box_tensor [[[60, 60, 100, 100, 7]]]"
    by (simp add: box_tensor_def)
  have size: "image_size [2, 1000, 500, 3] = Inr (1000, 500)" "(0::nat) < 1000" "(0::nat) < 500"
    by simp_all
  have v: "convert_format [[[60, 60, 100, 100, 7]]] ''center_xywh'' ''rel_xyxy''
     (Some [2, 1000, 500, 3]) id = Inr [[[1 / 50, 1 / 100, 11 / 50, 11 / 100, 7]]]"
    by (simp add: convert_format_pivot [where f = center_xywh_to_xyxy and g = xyxy_to_rel_xyxy]
      lower_formats formats_eq TO_Some FROM_Some tf_cast_def converter_defs split_concat_eq
      box_tensor_def except_RequiresImagesException_def)
  show ?thesis
    using A B b size(1) v convert_format_round_trip [OF A B b size] by simp
qed

subsection \<open>The payload passes through\<close>

text \<open>
  C2. Whenever \<open>convert_format\<close> returns, for any source and target, the fields after
  the first four of every record are those of the input after the cast, and every record
  keeps its number of fields: only the four coordinates are recomputed.
\<close>

theorem convert_format_preserves_payload:
  assumes "convert_format b source target images dtype = Inr b'"
  shows "payload b' = payload (tf_cast b dtype) \<and> map (map length) b' = map (map length) b"
proof -
  have len: "map (map length) (tf_cast b dtype) = map (map length) b"
    by (simp add: tf_cast_def comp_def)
  have s: "lower source \<in> set formats"
    using assms convert_format_bad_source [of source b target images dtype] by auto
  have t: "lower target \<in> set formats"
    using assms s convert_format_bad_target [of source target b images dtype] by auto
  show ?thesis
  proof (cases "lower source = lower target")
    case True
    with assms s have "b' = tf_cast b dtype"
      by (simp add: convert_format_same)
    with len show ?thesis by simp
  next
    case False
    obtain f g where f: "map_of TO_XYXY_CONVERTERS (lower source) = Some f"
      and g: "map_of FROM_XYXY_CONVERTERS (lower target) = Some g"
      using TO_defined [OF s] FROM_defined [OF t] by blast
    from assms have "(case f (tf_cast b dtype) images of Inl e \<Rightarrow> Inl e | Inr x \<Rightarrow> g x images)
        = Inr b'"
      by (simp add: convert_format_pivot [OF f g False] except_Inr_iff)
    then obtain x where x: "f (tf_cast b dtype) images = Inr x" and b': "g x images = Inr b'"
      by (auto split: sum.splits)
    have "payload x = payload (tf_cast b dtype) \<and>
        map (map length) x = map (map length) (tf_cast b dtype)"
      using f x by (intro converter_payload [where f = f]) auto
    moreover have "payload b' = payload x \<and> map (map length) b' = map (map length) x"
      using g b' by (intro converter_payload [where f = g]) auto
    ultimately show ?thesis using len by simp
  qed
qed

theorem convert_format_preserves_payload_witness:
  "convert_format [[[60, 60, 100, 100, 3, 1 / 2], [70, 70, 100, 100, 5, 1 / 4]]]
      ''center_xywh'' ''xyxy'' None (\<lambda>x. 2 * x) =
     Inr [[[20, 20, 220, 220, 6, 1], [40, 40, 240, 240, 10, 1 / 2]]] \<and>
   payload [[[20, 20, 220, 220, 6, 1], [40, 40, 240, 240, 10, 1 / 2]]] =
     payload (tf_cast [[[60, 60, 100, 100, 3, 1 / 2], [70, 70, 100, 100, 5, 1 / 4]]] (\<lambda>x. 2 * x)) \<and>
   payload [[[20, 20, 220, 220, 6, 1], [40, 40, 240, 240, 10, 1 / 2]]] = [[[6, 1], [10, 1 / 2]]]"
proof -
  have v: "convert_format [[[60, 60, 100, 100, 3, 1 / 2], [70, 70, 100, 100, 5, 1 / 4]]]
      ''center_xywh'' ''xyxy'' None (\<lambda>x. 2 * x) =
     Inr [[[20, 20, 220, 220, 6, 1], [40, 40, 240, 240, 10, 1 / 2]]]"
    by (simp add: convert_format_pivot [where f = center_xywh_to_xyxy and g = xyxy_no_op]
      lower_formats formats_eq TO_Some FROM_Some tf_cast_def converter_defs split_concat_eq
      box_tensor_def except_RequiresImagesException_def)
  show ?thesis
    using v convert_format_preserves_payload [OF v] by (simp add: payload_def)
qed

subsection \<open>Relative formats need images\<close>

text \<open>
  C3, as the code has it. For a pair of supported formats of which one is \<open>rel_xyxy\<close>,
  a box tensor and the default, floating-point dtype (exact arithmetic here, the cast
  being the identity), \<open>convert_format\<close> without images fails with the \<open>ValueError\<close>
  of the missing images when source and target differ, and returns the boxes when they
  are equal, as the call returns before any converter runs. The message of the missing
  images differs from both messages of the unsupported-format failure. An integer dtype
  is left out: there the true division of the centre converter fails first.
\<close>

theorem convert_format_requires_images:
  assumes s: "lower source \<in> set formats" and t: "lower target \<in> set formats"
    and rel: "lower source = ''rel_xyxy'' \<or> lower target = ''rel_xyxy''"
    and b: "box_tensor b"
  shows "convert_format b source target None id =
           (if lower source = lower target then Inr b
            else Inl (ValueError requires_images_message)) \<and>
         requires_images_message \<noteq> unsupported_source_message x \<and>
         requires_images_message \<noteq> unsupported_target_message y"
proof (cases "lower source = lower target")
  case True
  then have "convert_format b source target None id = Inr b"
    using s by (simp add: convert_format_same tf_cast_id)
  with True show ?thesis by (simp add: messages_distinct)
next
  case ne: False
  obtain f g where f: "map_of TO_XYXY_CONVERTERS (lower source) = Some f"
    and g: "map_of FROM_XYXY_CONVERTERS (lower target) = Some g"
    using TO_defined [OF s] FROM_defined [OF t] by blast
  have "(case f b None of Inl e \<Rightarrow> Inl e | Inr x \<Rightarrow> g x None) = Inl RequiresImagesException"
  proof (cases "lower source = ''rel_xyxy''")
    case True
    with f have "f = rel_xyxy_to_xyxy" by (simp add: TO_Some)
    then show ?thesis by (simp add: rel_xyxy_to_xyxy_def)
  next
    case False
    with rel g have "g = xyxy_to_rel_xyxy" by (simp add: FROM_Some)
    moreover obtain x where "f b None = Inr x"
      using absolute_to_xyxy_succeeds [OF f False b] by blast
    ultimately show ?thesis by (simp add: xyxy_to_rel_xyxy_def)
  qed
  then show ?thesis
    using ne
    by (simp add: convert_format_pivot [OF f g ne] tf_cast_id except_RequiresImages
        messages_distinct)
qed

theorem convert_format_requires_images_witness:
  "lower ''center_xyWH'' \<in> set formats \<and> lower ''rel_xyxy'' \<in> set formats \<and>
   box_tensor [[[60, 60, 100, 100]]] \<and>
   convert_format [[[60, 60, 100, 100]]] ''center_xyWH'' ''rel_xyxy'' None id =
     Inl (ValueError requires_images_message) \<and>
   convert_format [[[60, 60, 100, 100]]] ''rel_xyxy'' ''center_xyWH'' None id =
     Inl (ValueError requires_images_message) \<and>
   convert_format [[[60, 60, 100, 100]]] ''rel_xyxy'' ''rel_xyxy'' None id =
     Inr [[[60, 60, 100, 100]]]"
proof -
  have s: "lower ''center_xyWH'' \<in> set formats" and t: "lower ''rel_xyxy'' \<in> set formats"
    and ne: "lower ''center_xyWH'' \<noteq> lower ''rel_xyxy''"
      "lower ''rel_xyxy'' \<noteq> lower ''center_xyWH''"
    and rel: "lower ''center_xyWH'' = ''rel_xyxy'' \<or> lower ''rel_xyxy'' = ''rel_xyxy''"
      "lower ''rel_xyxy'' = ''rel_xyxy'' \<or> lower ''center_xyWH'' = ''rel_xyxy''"
      "lower ''rel_xyxy'' = ''rel_xyxy'' \<or> lower ''rel_xyxy'' = ''rel_xyxy''"
    by (simp_all add: lower_examples lower_formats formats_eq)
  have b: "box_tensor [[[60, 60, 100, 100]]]"
    by (simp add: box_tensor_def)
  show ?thesis
    using s t b ne
      convert_format_requires_images [OF s t rel(1) b]
      convert_format_requires_images [OF t s rel(2) b]
      convert_format_requires_images [OF t t rel(3) b]
    by simp
qed

text \<open>
  The pair \<open>(rel_xyxy, rel_xyxy)\<close> without images: the boxes come back and nothing is
  raised.
\<close>

theorem convert_format_requires_images_counterexample:
  "convert_format [[[1 / 100, 1 / 100, 11 / 100, 11 / 100]]] ''rel_xyxy'' ''rel_xyxy'' None id =
     Inr [[[1 / 100, 1 / 100, 11 / 100, 11 / 100]]] \<and>
   convert_format [[[1 / 100, 1 / 100, 11 / 100, 11 / 100]]] ''rel_xyxy'' ''rel_xyxy'' None id \<noteq>
     Inl (ValueError requires_images_message)"
  by (simp add: convert_format_same lower_formats formats_eq tf_cast_def)

subsection \<open>The pivot through xyxy\<close>

text \<open>
  C4, as the code has it. For two different supported formats, \<open>convert_format\<close> with
  images is exactly the composition
  \<open>FROM_XYXY_CONVERTERS[target](TO_XYXY_CONVERTERS[source](cast(b, dtype), images), images)\<close>;
  without images it is that composition with a \<open>RequiresImagesException\<close> of either
  converter replaced by the \<open>ValueError\<close> of the missing images.
\<close>

theorem convert_format_pivots_through_xyxy:
  assumes s: "source \<in> set formats" and t: "target \<in> set formats" and ne: "source \<noteq> target"
  shows "convert_format b source target (Some imgs) dtype =
           pivot_composition source target (tf_cast b dtype) (Some imgs) \<and>
         convert_format b source target None dtype =
           except_RequiresImagesException
             (pivot_composition source target (tf_cast b dtype) None)"
proof -
  obtain f g where f: "map_of TO_XYXY_CONVERTERS source = Some f"
    and g: "map_of FROM_XYXY_CONVERTERS target = Some g"
    using TO_defined [OF s] FROM_defined [OF t] by blast
  have low: "lower source = source" "lower target = target"
    using s t by (simp_all add: lower_formats)
  have conv: "convert_format b source target images dtype =
      except_RequiresImagesException (pivot_composition source target (tf_cast b dtype) images)"
    for images
    using convert_format_pivot [of source f target g b images dtype] f g ne
    by (simp add: low pivot_composition_def)
  have "pivot_composition source target (tf_cast b dtype) (Some imgs) \<noteq>
      Inl RequiresImagesException"
    using converter_with_images [of source f _ imgs] converter_with_images [of target g _ imgs] f g
    by (auto simp: pivot_composition_def split: sum.splits)
  then show ?thesis by (simp add: conv except_other)
qed

theorem convert_format_pivots_through_xyxy_witness:
  "''xywh'' \<in> set formats \<and> ''rel_xyxy'' \<in> set formats \<and>
   convert_format [[[10, 10, 100, 100, 7]]] ''xywh'' ''rel_xyxy'' (Some [2, 1000, 1000, 3]) id =
     pivot_composition ''xywh'' ''rel_xyxy'' (tf_cast [[[10, 10, 100, 100, 7]]] id)
       (Some [2, 1000, 1000, 3]) \<and>
   pivot_composition ''xywh'' ''rel_xyxy'' (tf_cast [[[10, 10, 100, 100, 7]]] id)
       (Some [2, 1000, 1000, 3]) = Inr [[[1 / 100, 1 / 100, 11 / 100, 11 / 100, 7]]]"
proof -
  have s: "''xywh'' \<in> set formats" and t: "''rel_xyxy'' \<in> set formats"
    and ne: "''xywh'' \<noteq> ''rel_xyxy''"
    by (simp_all add: formats_eq)
  have v: "pivot_composition ''xywh'' ''rel_xyxy'' (tf_cast [[[10, 10, 100, 100, 7]]] id)
       (Some [2, 1000, 1000, 3]) = Inr [[[1 / 100, 1 / 100, 11 / 100, 11 / 100, 7]]]"
    by (simp add: pivot_composition_def TO_XYXY_CONVERTERS_def FROM_XYXY_CONVERTERS_def
        tf_cast_def converter_defs split_concat_eq box_tensor_def)
  show ?thesis
    using s t v
      convert_format_pivots_through_xyxy [OF s t ne, of "[[[10, 10, 100, 100, 7]]]" "[2, 1000, 1000, 3]" id]
    by simp
qed

text \<open>
  From \<open>xyxy\<close> to \<open>rel_xyxy\<close> without images: the composition raises
  \<open>RequiresImagesException\<close>, \<open>convert_format\<close> raises the \<open>ValueError\<close>.
\<close>

theorem convert_format_pivots_through_xyxy_counterexample:
  "convert_format [[[10, 10, 110, 110]]] ''xyxy'' ''rel_xyxy'' None id \<noteq>
     pivot_composition ''xyxy'' ''rel_xyxy'' (tf_cast [[[10, 10, 110, 110]]] id) None"
  by (simp add: convert_format_pivot [where f = xyxy_no_op and g = xyxy_to_rel_xyxy]
      lower_formats formats_eq TO_Some FROM_Some pivot_composition_def
      TO_XYXY_CONVERTERS_def FROM_XYXY_CONVERTERS_def xyxy_no_op_def xyxy_to_rel_xyxy_def
      except_RequiresImagesException_def)

end
